theory Spec2Isabelle
  imports Complex_Main
begin

section \<open>Python values\<close>

text \<open>
  A Python \<open>str\<close> is a sequence of Unicode code points, so it is modelled as a list of
  code points. This keeps \<open>startswith\<close>, concatenation and \<open>strip\<close> exactly what they
  are in Python (the pound sign is the single code point U+00A3, and \<open>strip\<close> removes the
  code points for which \<open>str.isspace\<close> holds). Keys, endpoint and template names, which
  the source writes as ASCII literals, stay HOL strings; \<open>ustr\<close> turns an ASCII literal
  into a Python string.
\<close>

type_synonym pystr = "nat list"

definition ustr :: "string \<Rightarrow> pystr" where
  "ustr s = map of_char s"

definition pound :: pystr where
  "pound = [163]"

definition YES :: pystr where
  "YES = ustr ''YES''"

definition NO :: pystr where
  "NO = ustr ''NO''"

definition isspace :: "nat \<Rightarrow> bool" where
  "isspace c \<longleftrightarrow>
     (9 \<le> c \<and> c \<le> 13) \<or> (28 \<le> c \<and> c \<le> 32) \<or> c = 133 \<or> c = 160 \<or> c = 5760 \<or>
     (8192 \<le> c \<and> c \<le> 8202) \<or> c = 8232 \<or> c = 8233 \<or> c = 8239 \<or> c = 8287 \<or> c = 12288"

definition strip :: "pystr \<Rightarrow> pystr" where
  "strip s = rev (dropWhile isspace (rev (dropWhile isspace s)))"

definition startswith :: "pystr \<Rightarrow> pystr \<Rightarrow> bool" where
  "startswith s p \<longleftrightarrow> take (length p) s = p"

fun digits :: "nat \<Rightarrow> pystr" where
  "digits n = (if n < 10 then [48 + n] else digits (n div 10) @ [48 + n mod 10])"

definition str_int :: "int \<Rightarrow> pystr" where
  "str_int i = (if i < 0 then 45 # digits (nat (- i)) else digits (nat i))"

definition str_bool :: "bool \<Rightarrow> pystr" where
  "str_bool b = (if b then ustr ''True'' else ustr ''False'')"

text \<open>
  \<open>request.form.get\<close> and a nullable column give \<open>None\<close> or a string; an f-string
  prints \<open>None\<close> as the word.
\<close>

definition format_opt :: "pystr option \<Rightarrow> pystr" where
  "format_opt v = (case v of None \<Rightarrow> ustr ''None'' | Some s \<Rightarrow> s)"

datatype pyval = PyNone | PyBool bool | PyInt int | PyStr pystr

definition of_opt :: "pystr option \<Rightarrow> pyval" where
  "of_opt v = (case v of None \<Rightarrow> PyNone | Some s \<Rightarrow> PyStr s)"

section \<open>The cafes table\<close>

text \<open>
  One row of \<open>cafes\<close>, as class \<open>Cafe\<close> declares it. The string attributes of a
  \<open>Cafe\<close> object can hold \<open>None\<close> (\<open>add_cafe\<close> fills them with \<open>request.form.get\<close>), so
  they are options; the engine's NOT NULL check is \<open>not_null\<close>. The primary key column
  \<open>id\<close> is named \<open>id_col\<close>.
\<close>

record cafe =
  id_col :: int
  name :: "pystr option"
  map_url :: "pystr option"
  img_url :: "pystr option"
  location :: "pystr option"
  seats :: "pystr option"
  has_toilet :: bool
  has_wifi :: bool
  has_sockets :: bool
  can_take_calls :: bool
  coffee_price :: "pystr option"

definition to_dict :: "cafe \<Rightarrow> (string \<times> pyval) list" where
  "to_dict c =
     [(''id'', PyInt (id_col c)),
      (''name'', of_opt (name c)),
      (''map_url'', of_opt (map_url c)),
      (''img_url'', of_opt (img_url c)),
      (''location'', of_opt (location c)),
      (''seats'', of_opt (seats c)),
      (''has_toilet'', PyBool (has_toilet c)),
      (''has_wifi'', PyBool (has_wifi c)),
      (''has_sockets'', PyBool (has_sockets c)),
      (''can_take_calls'', PyBool (can_take_calls c)),
      (''coffee_price'', of_opt (coffee_price c))]"

definition columns :: "string list" where
  "columns = [''id'', ''name'', ''map_url'', ''img_url'', ''location'', ''seats'',
     ''has_toilet'', ''has_wifi'', ''has_sockets'', ''can_take_calls'', ''coffee_price'']"

definition repr_cafe :: "cafe \<Rightarrow> pystr" where
  "repr_cafe c =
     ustr ''<'' @ str_int (id_col c) @ ustr '', '' @ format_opt (name c) @ ustr '', '' @
     format_opt (location c) @ ustr '', '' @ format_opt (map_url c) @ ustr ''>''"

text \<open>
  The ways a request ends without a response of the view: \<open>NotFound\<close> is the 404 of
  \<open>get_or_404\<close>, \<open>MethodNotAllowed\<close> the 405 of a route that does not list the method,
  \<open>CSRFError\<close> the 400 of the anti-forgery check; \<open>IntegrityError\<close>,
  \<open>PendingRollbackError\<close> and \<open>IndexError\<close> are exceptions nothing catches.
\<close>

datatype error =
  NotFound | MethodNotAllowed | CSRFError | IntegrityError | PendingRollbackError | IndexError

subsection \<open>Persistence layer\<close>

text \<open>
  The table is the list of its rows in the order the engine returns them. The engine
  enforces what the schema declares: the primary key, NOT NULL, and the uniqueness of
  \<open>name\<close>; a commit that breaks one of them raises \<open>IntegrityError\<close> and leaves the table
  as it was. A new row gets a key above every key in the table. Declared string lengths
  are not checked (the engine of this application is SQLite), and a lost connection is
  outside the model.
\<close>

definition next_id :: "cafe list \<Rightarrow> int" where
  "next_id rows = Max (insert 0 (set (map id_col rows))) + 1"

definition not_null :: "cafe \<Rightarrow> bool" where
  "not_null c \<longleftrightarrow>
     name c \<noteq> None \<and> map_url c \<noteq> None \<and> img_url c \<noteq> None \<and> location c \<noteq> None \<and>
     seats c \<noteq> None"

definition db_insert :: "cafe list \<Rightarrow> (int \<Rightarrow> cafe) \<Rightarrow> error + cafe list" where
  "db_insert rows new_cafe =
     (let c = new_cafe (next_id rows)
      in if \<not> not_null c \<or> name c \<in> set (map name rows) then Inl IntegrityError
         else Inr (rows @ [c]))"

definition db_update :: "cafe list \<Rightarrow> cafe \<Rightarrow> error + cafe list" where
  "db_update rows c =
     (if \<not> not_null c \<or> name c \<in> set (map name (filter (\<lambda>r. id_col r \<noteq> id_col c) rows))
      then Inl IntegrityError
      else Inr (map (\<lambda>r. if id_col r = id_col c then c else r) rows))"

definition db_delete :: "cafe list \<Rightarrow> cafe \<Rightarrow> cafe list" where
  "db_delete rows c = filter (\<lambda>r. id_col r \<noteq> id_col c) rows"

definition get_or_404 :: "cafe list \<Rightarrow> int \<Rightarrow> error + cafe" where
  "get_or_404 rows cafe_id =
     (case find (\<lambda>c. id_col c = cafe_id) rows of None \<Rightarrow> Inl NotFound | Some c \<Rightarrow> Inr c)"

section \<open>Requests, forms and validation\<close>

datatype http_method = GET | HEAD | POST | PUT | PATCH | DELETE

text \<open>
  A request as the view functions read it: the method, \<open>request.form\<close> and
  \<open>request.args\<close> as maps from a key to its first value, and whether the anti-forgery
  token it carries is the valid one.
\<close>

record request =
  req_method :: http_method
  form :: "string \<rightharpoonup> pystr"
  args :: "string \<rightharpoonup> pystr"
  csrf_valid :: bool

definition is_submitted :: "request \<Rightarrow> bool" where
  "is_submitted req \<longleftrightarrow> req_method req \<in> {POST, PUT, PATCH, DELETE}"

text \<open>
  The data of one form field. On a submitted request a field takes the value the request
  sends under its name; a field the request does not send, and every field of a request
  that is not a submission, keeps the data of the object the form was built from
  (\<open>None\<close> when the form has no object).
\<close>

definition process_field :: "request \<Rightarrow> string \<Rightarrow> pystr option \<Rightarrow> pystr option" where
  "process_field req k obj_data =
     (if is_submitted req then (case form req k of Some v \<Rightarrow> Some v | None \<Rightarrow> obj_data)
      else obj_data)"

record cafe_form =
  name_data :: "pystr option"
  map_url_data :: "pystr option"
  img_url_data :: "pystr option"
  location_data :: "pystr option"
  seats_data :: "pystr option"
  has_toilet_data :: "pystr option"
  has_wifi_data :: "pystr option"
  has_sockets_data :: "pystr option"
  can_take_calls_data :: "pystr option"
  coffee_price_data :: "pystr option"

record report_form =
  sender_data :: "pystr option"
  message_data :: "pystr option"

definition AddCafeForm :: "request \<Rightarrow> cafe_form" where
  "AddCafeForm req =
     \<lparr>name_data = process_field req ''name'' None,
      map_url_data = process_field req ''map_url'' None,
      img_url_data = process_field req ''img_url'' None,
      location_data = process_field req ''location'' None,
      seats_data = process_field req ''seats'' None,
      has_toilet_data = process_field req ''has_toilet'' None,
      has_wifi_data = process_field req ''has_wifi'' None,
      has_sockets_data = process_field req ''has_sockets'' None,
      can_take_calls_data = process_field req ''can_take_calls'' None,
      coffee_price_data = process_field req ''coffee_price'' None\<rparr>"

text \<open>The data \<open>UpdateCafeForm(obj=cafe)\<close> takes from the object alone.\<close>

definition obj_data :: "cafe \<Rightarrow> cafe_form" where
  "obj_data c =
     \<lparr>name_data = name c,
      map_url_data = map_url c,
      img_url_data = img_url c,
      location_data = location c,
      seats_data = seats c,
      has_toilet_data = Some (str_bool (has_toilet c)),
      has_wifi_data = Some (str_bool (has_wifi c)),
      has_sockets_data = Some (str_bool (has_sockets c)),
      can_take_calls_data = Some (str_bool (can_take_calls c)),
      coffee_price_data = coffee_price c\<rparr>"

definition UpdateCafeForm :: "request \<Rightarrow> cafe \<Rightarrow> cafe_form" where
  "UpdateCafeForm req c =
     \<lparr>name_data = process_field req ''name'' (name_data (obj_data c)),
      map_url_data = process_field req ''map_url'' (map_url_data (obj_data c)),
      img_url_data = process_field req ''img_url'' (img_url_data (obj_data c)),
      location_data = process_field req ''location'' (location_data (obj_data c)),
      seats_data = process_field req ''seats'' (seats_data (obj_data c)),
      has_toilet_data = process_field req ''has_toilet'' (has_toilet_data (obj_data c)),
      has_wifi_data = process_field req ''has_wifi'' (has_wifi_data (obj_data c)),
      has_sockets_data = process_field req ''has_sockets'' (has_sockets_data (obj_data c)),
      can_take_calls_data =
        process_field req ''can_take_calls'' (can_take_calls_data (obj_data c)),
      coffee_price_data = process_field req ''coffee_price'' (coffee_price_data (obj_data c))\<rparr>"

definition ReportClosed :: "request \<Rightarrow> report_form" where
  "ReportClosed req =
     \<lparr>sender_data = process_field req ''sender'' None,
      message_data = process_field req ''message'' None\<rparr>"

definition DeletCafeForm :: "request \<Rightarrow> pystr option" where
  "DeletCafeForm req = process_field req ''api_key'' None"

subsection \<open>Validators\<close>

text \<open>
  \<open>DataRequired\<close> accepts a string that is not empty and not all whitespace. \<open>URL\<close> is
  the library's validator and is a parameter of the model. A select field accepts one of
  its choices. The validators of a field run in order and stop at the first failure, so a
  field is valid when all of them accept.
\<close>

definition DataRequired :: "pystr option \<Rightarrow> bool" where
  "DataRequired d = (case d of None \<Rightarrow> False | Some s \<Rightarrow> s \<noteq> [] \<and> strip s \<noteq> [])"

definition url_field_ok :: "(pystr \<Rightarrow> bool) \<Rightarrow> pystr option \<Rightarrow> bool" where
  "url_field_ok URL d = (case d of None \<Rightarrow> False | Some s \<Rightarrow> DataRequired d \<and> URL s)"

definition select_field_ok :: "pystr option \<Rightarrow> bool" where
  "select_field_ok d \<longleftrightarrow> d \<in> {Some YES, Some NO} \<and> DataRequired d"

datatype validation_error = ValidationError pystr

definition validate_coffee_price :: "pystr \<Rightarrow> validation_error + unit" where
  "validate_coffee_price field_data =
     (if \<not> startswith field_data pound
      then Inl (ValidationError (ustr ''Price must starts with '' @ [39] @ pound @ [39, 46]))
      else Inr ())"

definition coffee_price_field_ok :: "pystr option \<Rightarrow> bool" where
  "coffee_price_field_ok d =
     (case d of None \<Rightarrow> False | Some s \<Rightarrow> DataRequired d \<and> validate_coffee_price s = Inr ())"

definition AddCafeForm_validate :: "(pystr \<Rightarrow> bool) \<Rightarrow> request \<Rightarrow> cafe_form \<Rightarrow> bool" where
  "AddCafeForm_validate URL req f \<longleftrightarrow>
     csrf_valid req \<and> DataRequired (name_data f) \<and> url_field_ok URL (map_url_data f) \<and>
     url_field_ok URL (img_url_data f) \<and> DataRequired (location_data f) \<and>
     DataRequired (seats_data f) \<and> select_field_ok (has_toilet_data f) \<and>
     select_field_ok (has_wifi_data f) \<and> select_field_ok (has_sockets_data f) \<and>
     select_field_ok (can_take_calls_data f) \<and> DataRequired (coffee_price_data f)"

definition UpdateCafeForm_validate :: "(pystr \<Rightarrow> bool) \<Rightarrow> request \<Rightarrow> cafe_form \<Rightarrow> bool" where
  "UpdateCafeForm_validate URL req f \<longleftrightarrow>
     csrf_valid req \<and> DataRequired (name_data f) \<and> url_field_ok URL (map_url_data f) \<and>
     url_field_ok URL (img_url_data f) \<and> DataRequired (location_data f) \<and>
     DataRequired (seats_data f) \<and> select_field_ok (has_toilet_data f) \<and>
     select_field_ok (has_wifi_data f) \<and> select_field_ok (has_sockets_data f) \<and>
     select_field_ok (can_take_calls_data f) \<and> coffee_price_field_ok (coffee_price_data f)"

definition ReportClosed_validate :: "request \<Rightarrow> report_form \<Rightarrow> bool" where
  "ReportClosed_validate req f \<longleftrightarrow>
     csrf_valid req \<and> DataRequired (sender_data f) \<and> DataRequired (message_data f)"

section \<open>Application state and responses\<close>

datatype smtp_failure =
  ConnectFailed | EhloFailed | StartTlsFailed | LoginFailed | SendmailFailed | QuitFailed

text \<open>
  The calls of \<open>flash\<close> that complete, one constructor for each, with the cafe name or
  the exception it formats. The call in the \<open>except\<close> block of \<open>update_cafe\<close> never
  completes (see there).
\<close>

datatype notice =
  UpdateSucceeded "pystr option"
  | Deleted "pystr option"
  | ReportSent "pystr option"
  | EmailSent
  | EmailFailed smtp_failure

text \<open>
  One SMTP session as \<open>send_email\<close> opens it: the relay it connects to, the
  credentials of the login, the addresses and the message of \<open>sendmail\<close>, and how the
  session ended (\<open>None\<close>: every step succeeded, otherwise the step that raised).
\<close>

record mail_session =
  mail_server :: pystr
  mail_port :: nat
  user :: pystr
  password :: pystr
  from_addr :: pystr
  to_addrs :: pystr
  msg :: pystr
  outcome :: "smtp_failure option"

text \<open>
  The state a request can change: the table, the flashed notices with their category,
  and the log of the SMTP sessions opened.
\<close>

record state =
  table :: "cafe list"
  flashed :: "(notice \<times> string) list"
  mail_log :: "mail_session list"

definition flash :: "notice \<Rightarrow> string \<Rightarrow> state \<Rightarrow> state" where
  "flash n category s = s\<lparr>flashed := flashed s @ [(n, category)]\<rparr>"

record config =
  API_KEY :: "pystr option"
  MAIL_SERVER :: pystr
  MAIL_PORT :: nat
  OWN_EMAIL :: pystr
  OWN_PW :: pystr

datatype template_args =
  NoArgs
  | AllCafes "(string \<times> pyval) list list"
  | CafeForm cafe_form
  | ReportForms "pystr option" report_form

datatype response =
  render_template string template_args
  | redirect string
  | jsonify string "(string \<times> pyval) list"

definition status_code :: "response \<Rightarrow> nat" where
  "status_code r = (case r of render_template t a \<Rightarrow> 200 | redirect e \<Rightarrow> 302 | jsonify k d \<Rightarrow> 200)"

section \<open>Route handlers\<close>

text \<open>
  A view function takes the request and the state and returns an error or a response,
  and the state after the request.
\<close>

definition home :: "state \<Rightarrow> (error + response) \<times> state" where
  "home s = (Inr (render_template ''index.html'' NoArgs), s)"

text \<open>
  \<open>random.choice\<close> raises \<open>IndexError\<close> on an empty sequence and otherwise returns the
  element at the index the generator draws below the length; the draw is the argument
  \<open>r\<close>.
\<close>

definition choice :: "nat \<Rightarrow> 'a list \<Rightarrow> error + 'a" where
  "choice r xs = (if xs = [] then Inl IndexError else Inr (xs ! r))"

definition get_random_cafe :: "nat \<Rightarrow> state \<Rightarrow> (error + response) \<times> state" where
  "get_random_cafe r s =
     (let cafes = table s
      in case choice r cafes of
           Inl e \<Rightarrow> (Inl e, s)
         | Inr random_cafe \<Rightarrow> (Inr (jsonify ''cafe'' (to_dict random_cafe)), s))"

text \<open>
  The generator draws below \<open>n\<close> uniformly: each of the \<open>n\<close> draws \<open>0, ..., n - 1\<close> is as
  likely as any other. The probability of an event on the draw is therefore the number of
  draws in the event divided by \<open>n\<close>.
\<close>

definition prob_draw :: "nat \<Rightarrow> (nat \<Rightarrow> bool) \<Rightarrow> real" where
  "prob_draw n E = real (length (filter E [0..<n])) / real n"

definition get_all_cafes :: "state \<Rightarrow> (error + response) \<times> state" where
  "get_all_cafes s = (Inr (render_template ''cafes.html'' (AllCafes (map to_dict (table s)))), s)"

definition not_found_payload :: "(string \<times> pyval) list" where
  "not_found_payload =
     [(''Not Found'',
       PyStr (ustr ''Sorry, we don'' @ [39] @ ustr ''t have a cafe at this location.''))]"

definition get_cafe_at_location :: "request \<Rightarrow> state \<Rightarrow> (error + response) \<times> state" where
  "get_cafe_at_location req s =
     (let query_location = args req ''loc''
      in case find (\<lambda>c. location c = query_location) (table s) of
           Some c \<Rightarrow> (Inr (jsonify ''cafe'' (to_dict c)), s)
         | None \<Rightarrow> (Inr (jsonify ''error'' not_found_payload), s))"

definition new_cafe :: "request \<Rightarrow> int \<Rightarrow> cafe" where
  "new_cafe req i =
     \<lparr>id_col = i,
      name = form req ''name'',
      map_url = form req ''map_url'',
      img_url = form req ''img_url'',
      location = form req ''location'',
      seats = form req ''seats'',
      has_toilet = (form req ''has_toilet'' = Some YES),
      has_wifi = (form req ''has_wifi'' = Some YES),
      has_sockets = (form req ''has_sockets'' = Some YES),
      can_take_calls = (form req ''can_take_calls'' = Some YES),
      coffee_price = Some (pound @ format_opt (form req ''coffee_price''))\<rparr>"

definition add_cafe :: "(pystr \<Rightarrow> bool) \<Rightarrow> request \<Rightarrow> state \<Rightarrow> (error + response) \<times> state" where
  "add_cafe URL req s =
     (let f = AddCafeForm req
      in if is_submitted req \<and> AddCafeForm_validate URL req f
         then (case db_insert (table s) (new_cafe req) of
                 Inl e \<Rightarrow> (Inl e, s)
               | Inr rows \<Rightarrow> (Inr (redirect ''get_all_cafes''), s\<lparr>table := rows\<rparr>))
         else (Inr (render_template ''add.html'' (CafeForm f)), s))"

definition assign_form :: "cafe \<Rightarrow> cafe_form \<Rightarrow> cafe" where
  "assign_form c f =
     c\<lparr>name := name_data f,
       map_url := map_url_data f,
       img_url := img_url_data f,
       location := location_data f,
       seats := seats_data f,
       has_toilet := (has_toilet_data f = Some YES),
       has_wifi := (has_wifi_data f = Some YES),
       has_sockets := (has_sockets_data f = Some YES),
       can_take_calls := (can_take_calls_data f = Some YES),
       coffee_price := coffee_price_data f\<rparr>"

text \<open>
  When the commit of an update fails, the \<open>except\<close> block first formats \<open>cafe.name\<close>
  for the notice and only then calls \<open>db.session.rollback()\<close>. The failed flush has
  expired the object and left the session waiting for that rollback, so reading the
  attribute raises \<open>PendingRollbackError\<close> inside the handler of the first exception:
  nothing is flashed, \<open>rollback\<close> is not reached, no page is rendered, and the exception
  leaves the view. The table is as before the request.
\<close>

definition update_cafe ::
  "(pystr \<Rightarrow> bool) \<Rightarrow> int \<Rightarrow> request \<Rightarrow> state \<Rightarrow> (error + response) \<times> state" where
  "update_cafe URL cafe_id req s =
     (case get_or_404 (table s) cafe_id of
        Inl e \<Rightarrow> (Inl e, s)
      | Inr c \<Rightarrow>
          (let f = UpdateCafeForm req c
           in if is_submitted req \<and> UpdateCafeForm_validate URL req f
              then (let c2 = assign_form c f
                    in case db_update (table s) c2 of
                         Inr rows \<Rightarrow>
                           (Inr (redirect ''get_all_cafes''),
                            flash (UpdateSucceeded (name c2)) ''success'' (s\<lparr>table := rows\<rparr>))
                       | Inl e \<Rightarrow> (Inl PendingRollbackError, s))
              else (Inr (render_template ''edit.html'' (CafeForm f)), s)))"

definition email_message :: "pystr option \<Rightarrow> pystr \<Rightarrow> pystr" where
  "email_message sender message =
     ustr ''Subject: [Free-wifi-Cafes] A New Report Message!'' @ [10, 10] @ ustr ''Name: '' @
     format_opt sender @ [10] @ ustr ''-----'' @ [10] @ ustr ''Message:'' @ message"

definition smtp_session :: "config \<Rightarrow> pystr \<Rightarrow> smtp_failure option \<Rightarrow> mail_session" where
  "smtp_session cfg m smtp =
     \<lparr>mail_server = MAIL_SERVER cfg,
      mail_port = MAIL_PORT cfg,
      user = OWN_EMAIL cfg,
      password = OWN_PW cfg,
      from_addr = OWN_EMAIL cfg,
      to_addrs = OWN_EMAIL cfg,
      msg = m,
      outcome = smtp\<rparr>"

text \<open>
  \<open>send_email\<close> opens one session and catches whatever it raises: it flashes the
  success or the failure and returns. The argument \<open>smtp\<close> is what the relay does with
  the session.
\<close>

definition send_email :: "config \<Rightarrow> smtp_failure option \<Rightarrow> pystr option \<Rightarrow> pystr \<Rightarrow> state \<Rightarrow> state" where
  "send_email cfg smtp sender message s =
     (let s1 = s\<lparr>mail_log := mail_log s @ [smtp_session cfg (email_message sender message) smtp]\<rparr>
      in case smtp of
           None \<Rightarrow> flash EmailSent ''success'' s1
         | Some e \<Rightarrow> flash (EmailFailed e) ''danger'' s1)"

definition message_from_usr :: "request \<Rightarrow> cafe \<Rightarrow> pystr" where
  "message_from_usr req c =
     format_opt (form req ''message'') @ [10] @ ustr ''-----'' @ [10] @ ustr ''Cafe'' @ [39] @
     ustr ''s Info: '' @ repr_cafe c"

text \<open>
  The view function of \<open>/report-closed\<close>. It compares the key before anything else and
  never looks at the anti-forgery token in that branch; the token of a keyed request is
  checked by the application before the view runs (\<open>report_closed_endpoint\<close> below).
\<close>

definition delete_cafe ::
  "config \<Rightarrow> smtp_failure option \<Rightarrow> int \<Rightarrow> request \<Rightarrow> state \<Rightarrow> (error + response) \<times> state" where
  "delete_cafe cfg smtp cafe_id req s =
     (let del_form = DeletCafeForm req;
          report_form = ReportClosed req;
          api_key = form req ''api_key''
      in if api_key = API_KEY cfg
         then (case get_or_404 (table s) cafe_id of
                 Inl e \<Rightarrow> (Inl e, s)
               | Inr c \<Rightarrow>
                   (Inr (redirect ''get_all_cafes''),
                    flash (Deleted (name c)) ''success'' (s\<lparr>table := db_delete (table s) c\<rparr>)))
         else if is_submitted req \<and> ReportClosed_validate req report_form
         then (case get_or_404 (table s) cafe_id of
                 Inl e \<Rightarrow> (Inl e, s)
               | Inr c \<Rightarrow>
                   (let sender = form req ''sender'';
                        s1 = send_email cfg smtp sender (message_from_usr req c) s
                    in (Inr (redirect ''get_all_cafes''), flash (ReportSent (name c)) ''success'' s1)))
         else (Inr (render_template ''report.html'' (ReportForms del_form report_form)), s))"

section \<open>Endpoints\<close>

text \<open>
  A request reaches a view function through the application: the route answers 405 to a
  method it does not list (\<open>HEAD\<close> comes with \<open>GET\<close>), and \<open>CSRFProtect(app)\<close> then
  checks every request of method POST, PUT, PATCH or DELETE and answers 400 when its token
  is not valid. Neither changes the state. Only a request that passes both is handled by
  the view function.
\<close>

definition csrf_refused :: "request \<Rightarrow> bool" where
  "csrf_refused req \<longleftrightarrow> req_method req \<in> {POST, PUT, PATCH, DELETE} \<and> \<not> csrf_valid req"

definition endpoint ::
  "http_method list \<Rightarrow> (request \<Rightarrow> state \<Rightarrow> (error + response) \<times> state) \<Rightarrow>
   request \<Rightarrow> state \<Rightarrow> (error + response) \<times> state" where
  "endpoint methods view req s =
     (if req_method req \<notin> set methods then (Inl MethodNotAllowed, s)
      else if csrf_refused req then (Inl CSRFError, s)
      else view req s)"

definition add_endpoint ::
  "(pystr \<Rightarrow> bool) \<Rightarrow> request \<Rightarrow> state \<Rightarrow> (error + response) \<times> state" where
  "add_endpoint URL = endpoint [GET, HEAD, POST] (add_cafe URL)"

definition update_cafe_endpoint ::
  "(pystr \<Rightarrow> bool) \<Rightarrow> int \<Rightarrow> request \<Rightarrow> state \<Rightarrow> (error + response) \<times> state" where
  "update_cafe_endpoint URL cafe_id = endpoint [GET, HEAD, POST] (update_cafe URL cafe_id)"


section \<open>Example data\<close>

text \<open>
  A stand-in for the library's URL validator, and the submission of the specification's
  example: a cafe named "Brew & Bytes" with the price input "3.50".
\<close>

definition https_only :: "pystr \<Rightarrow> bool" where
  "https_only u \<longleftrightarrow> startswith u (ustr ''https://'')"

definition brew_form :: "string \<rightharpoonup> pystr" where
  "brew_form =
     [''name'' \<mapsto> ustr ''Brew & Bytes'',
      ''map_url'' \<mapsto> ustr ''https://maps.example.com/brew'',
      ''img_url'' \<mapsto> ustr ''https://img.example.com/brew.jpg'',
      ''location'' \<mapsto> ustr ''Peckham'',
      ''seats'' \<mapsto> ustr ''20-30'',
      ''has_toilet'' \<mapsto> YES,
      ''has_wifi'' \<mapsto> YES,
      ''has_sockets'' \<mapsto> NO,
      ''can_take_calls'' \<mapsto> NO,
      ''coffee_price'' \<mapsto> ustr ''3.50'']"

definition brew_request :: request where
  "brew_request = \<lparr>req_method = POST, form = brew_form, args = Map.empty, csrf_valid = True\<rparr>"

definition brew_row :: cafe where
  "brew_row = new_cafe brew_request 1"

definition tea_row :: cafe where
  "tea_row =
     \<lparr>id_col = 2,
      name = Some (ustr ''Tea Corner''),
      map_url = Some (ustr ''https://maps.example.com/tea''),
      img_url = Some (ustr ''https://img.example.com/tea.jpg''),
      location = Some (ustr ''Peckham''),
      seats = Some (ustr ''0-10''),
      has_toilet = False,
      has_wifi = True,
      has_sockets = True,
      can_take_calls = False,
      coffee_price = Some (pound @ ustr ''2.80'')\<rparr>"

definition empty_state :: state where
  "empty_state = \<lparr>table = [], flashed = [], mail_log = []\<rparr>"

definition tea_state :: state where
  "tea_state = \<lparr>table = [tea_row], flashed = [], mail_log = []\<rparr>"

definition brew_state :: state where
  "brew_state = \<lparr>table = [brew_row, tea_row], flashed = [], mail_log = []\<rparr>"

text \<open>
  An update of the second row that renames it to the name of the first, and two requests
  to the report-closed endpoint: a closure report, and the same report with the
  administrator's key added.
\<close>

definition rename_request :: request where
  "rename_request =
     \<lparr>req_method = POST,
      form = brew_form(''coffee_price'' \<mapsto> pound @ ustr ''3.50''),
      args = Map.empty,
      csrf_valid = True\<rparr>"

definition admin_config :: config where
  "admin_config =
     \<lparr>API_KEY = Some (ustr ''TopSecretAPIKey''),
      MAIL_SERVER = ustr ''smtp.example.com'',
      MAIL_PORT = 587,
      OWN_EMAIL = ustr ''admin@example.com'',
      OWN_PW = ustr ''pw''\<rparr>"

definition report_request :: request where
  "report_request =
     \<lparr>req_method = POST,
      form = [''sender'' \<mapsto> ustr ''a@b.c'', ''message'' \<mapsto> ustr ''closed''],
      args = Map.empty,
      csrf_valid = True\<rparr>"

definition keyed_report_request :: request where
  "keyed_report_request =
     report_request\<lparr>form := (form report_request)(''api_key'' \<mapsto> ustr ''TopSecretAPIKey'')\<rparr>"


definition search_request :: "pystr \<Rightarrow> request" where
  "search_request loc =
     \<lparr>req_method = GET, form = Map.empty, args = [''loc'' \<mapsto> loc], csrf_valid = False\<rparr>"

section \<open>Auxiliary facts\<close>

lemma strip_Nil_iff: "strip s = [] \<longleftrightarrow> (\<forall>c\<in>set s. isspace c)"
proof
  assume "strip s = []"
  then have all: "\<forall>c\<in>set (dropWhile isspace s). isspace c"
    by (simp add: strip_def dropWhile_eq_Nil_conv)
  have "dropWhile isspace s = []"
  proof (rule ccontr)
    assume ne: "dropWhile isspace s \<noteq> []"
    then have "\<not> isspace (hd (dropWhile isspace s))" by (rule hd_dropWhile)
    moreover have "hd (dropWhile isspace s) \<in> set (dropWhile isspace s)" using ne by simp
    ultimately show False using all by blast
  qed
  then show "\<forall>c\<in>set s. isspace c" by (simp add: dropWhile_eq_Nil_conv)
next
  assume "\<forall>c\<in>set s. isspace c"
  then have e: "dropWhile isspace s = []" by (simp add: dropWhile_eq_Nil_conv)
  show "strip s = []" by (simp only: strip_def e rev.simps dropWhile.simps)
qed

lemma DataRequired_iff: "DataRequired d \<longleftrightarrow> (\<exists>s. d = Some s \<and> \<not> list_all isspace s)"
  by (cases d) (auto simp: DataRequired_def strip_Nil_iff list_all_iff)

lemma brew_fields:
  "brew_form ''name'' = Some (ustr ''Brew & Bytes'')"
  "brew_form ''map_url'' = Some (ustr ''https://maps.example.com/brew'')"
  "brew_form ''img_url'' = Some (ustr ''https://img.example.com/brew.jpg'')"
  "brew_form ''location'' = Some (ustr ''Peckham'')"
  "brew_form ''seats'' = Some (ustr ''20-30'')"
  "brew_form ''has_toilet'' = Some YES"
  "brew_form ''has_wifi'' = Some YES"
  "brew_form ''has_sockets'' = Some NO"
  "brew_form ''can_take_calls'' = Some NO"
  "brew_form ''coffee_price'' = Some (ustr ''3.50'')"
  by (simp_all add: brew_form_def)

lemma brew_submitted: "is_submitted brew_request"
  by (simp add: is_submitted_def brew_request_def)

lemma brew_valid: "AddCafeForm_validate https_only brew_request (AddCafeForm brew_request)"
  by (simp add: AddCafeForm_validate_def AddCafeForm_def process_field_def brew_submitted
      brew_request_def is_submitted_def brew_fields DataRequired_iff url_field_ok_def select_field_ok_def
      https_only_def startswith_def YES_def NO_def ustr_def isspace_def)


lemma id_lt_next_id: "c \<in> set rows \<Longrightarrow> id_col c < next_id rows"
proof -
  assume "c \<in> set rows"
  then have "id_col c \<in> insert 0 (set (map id_col rows))" by simp
  then have "id_col c \<le> Max (insert 0 (set (map id_col rows)))" by (intro Max_ge) auto
  then show ?thesis by (simp add: next_id_def)
qed

lemma YES_neq_NO: "YES \<noteq> NO"
  by (simp add: YES_def NO_def ustr_def)

lemma AddCafeForm_submitted:
  assumes "is_submitted req"
  shows "AddCafeForm req =
     \<lparr>name_data = form req ''name'', map_url_data = form req ''map_url'',
      img_url_data = form req ''img_url'', location_data = form req ''location'',
      seats_data = form req ''seats'', has_toilet_data = form req ''has_toilet'',
      has_wifi_data = form req ''has_wifi'', has_sockets_data = form req ''has_sockets'',
      can_take_calls_data = form req ''can_take_calls'',
      coffee_price_data = form req ''coffee_price''\<rparr>"
  using assms by (simp add: AddCafeForm_def process_field_def split: option.splits)

lemma url_field_ok_Some: "url_field_ok URL d \<Longrightarrow> d \<noteq> None"
  by (cases d) (simp_all add: url_field_ok_def)

lemma DataRequired_not_None: "DataRequired d \<Longrightarrow> d \<noteq> None"
  by (cases d) (simp_all add: DataRequired_def)

lemma select_field_ok_cases: "select_field_ok d \<Longrightarrow> d = Some YES \<or> d = Some NO"
  by (simp add: select_field_ok_def)

lemma valid_add_not_null:
  assumes "is_submitted req" "AddCafeForm_validate URL req (AddCafeForm req)"
  shows "not_null (new_cafe req i)"
proof -
  from assms have
    "DataRequired (form req ''name'')" "url_field_ok URL (form req ''map_url'')"
    "url_field_ok URL (form req ''img_url'')" "DataRequired (form req ''location'')"
    "DataRequired (form req ''seats'')"
    by (simp_all add: AddCafeForm_submitted AddCafeForm_validate_def)
  then have "form req ''name'' \<noteq> None" "form req ''map_url'' \<noteq> None"
    "form req ''img_url'' \<noteq> None" "form req ''location'' \<noteq> None" "form req ''seats'' \<noteq> None"
    by (blast dest: DataRequired_not_None url_field_ok_Some)+
  then show ?thesis by (simp add: not_null_def new_cafe_def)
qed

lemma db_insert_fresh:
  assumes "not_null (mk (next_id rows))" "name (mk (next_id rows)) \<notin> set (map name rows)"
  shows "db_insert rows mk = Inr (rows @ [mk (next_id rows)])"
  using assms by (simp add: db_insert_def Let_def)

section \<open>Adding a cafe\<close>

text \<open>
  Claim C1, as amended. A submission to \<open>/add\<close> that passes validation and whose name
  no row of the table carries is stored: the handler redirects to the listing, the table
  is the old table followed by exactly one new row (so the row count grows by one), the
  new row has a key no other row has, its name, map link, image link, location and seats
  are the submitted values, each amenity flag is true when the submitted string is YES
  and false when it is NO, and its price is the pound sign followed by the submitted
  price.
\<close>

theorem add_cafe_inserts_one_row:
  assumes sub: "is_submitted req"
    and val: "AddCafeForm_validate URL req (AddCafeForm req)"
    and fresh: "form req ''name'' \<notin> set (map name (table s))"
  shows "\<exists>row p. add_cafe URL req s =
           (Inr (redirect ''get_all_cafes''), s\<lparr>table := table s @ [row]\<rparr>)
       \<and> length (table s @ [row]) = length (table s) + 1
       \<and> id_col row \<notin> set (map id_col (table s))
       \<and> name row = form req ''name''
       \<and> map_url row = form req ''map_url''
       \<and> img_url row = form req ''img_url''
       \<and> location row = form req ''location''
       \<and> seats row = form req ''seats''
       \<and> form req ''has_toilet'' = Some (if has_toilet row then YES else NO)
       \<and> form req ''has_wifi'' = Some (if has_wifi row then YES else NO)
       \<and> form req ''has_sockets'' = Some (if has_sockets row then YES else NO)
       \<and> form req ''can_take_calls'' = Some (if can_take_calls row then YES else NO)
       \<and> form req ''coffee_price'' = Some p
       \<and> coffee_price row = Some (pound @ p)"
proof -
  define row where "row = new_cafe req (next_id (table s))"
  have nn: "not_null row"
    unfolding row_def using sub val by (rule valid_add_not_null)
  have nm: "name row = form req ''name''"
    by (simp add: row_def new_cafe_def)
  have ins: "db_insert (table s) (new_cafe req) = Inr (table s @ [row])"
    unfolding row_def using nn fresh nm by (intro db_insert_fresh) (simp_all add: row_def)
  have run: "add_cafe URL req s = (Inr (redirect ''get_all_cafes''), s\<lparr>table := table s @ [row]\<rparr>)"
    using sub val ins by (simp add: add_cafe_def Let_def)
  have key: "id_col row \<notin> set (map id_col (table s))"
  proof
    assume "id_col row \<in> set (map id_col (table s))"
    then obtain c where "c \<in> set (table s)" "id_col c = id_col row" by auto
    then show False using id_lt_next_id [of c "table s"] by (simp add: row_def new_cafe_def)
  qed
  from val sub have sel:
    "select_field_ok (form req ''has_toilet'')" "select_field_ok (form req ''has_wifi'')"
    "select_field_ok (form req ''has_sockets'')" "select_field_ok (form req ''can_take_calls'')"
    and pr: "DataRequired (form req ''coffee_price'')"
    by (simp_all add: AddCafeForm_validate_def AddCafeForm_submitted)
  from pr obtain p where p: "form req ''coffee_price'' = Some p"
    using DataRequired_not_None by fastforce
  have am:
    "form req ''has_toilet'' = Some (if has_toilet row then YES else NO)"
    "form req ''has_wifi'' = Some (if has_wifi row then YES else NO)"
    "form req ''has_sockets'' = Some (if has_sockets row then YES else NO)"
    "form req ''can_take_calls'' = Some (if can_take_calls row then YES else NO)"
    using sel [THEN select_field_ok_cases] by (auto simp: row_def new_cafe_def YES_neq_NO)
  have flds: "map_url row = form req ''map_url''" "img_url row = form req ''img_url''"
    "location row = form req ''location''" "seats row = form req ''seats''"
    "coffee_price row = Some (pound @ p)"
    by (simp_all add: row_def new_cafe_def p format_opt_def)
  show ?thesis
    using run key nm am flds p by (intro exI [of _ row] exI [of _ p]) simp
qed


lemma brew_fresh_empty: "form brew_request ''name'' \<notin> set (map name (table empty_state))"
  by (simp add: empty_state_def)

theorem add_cafe_inserts_one_row_witness:
  "is_submitted brew_request
   \<and> AddCafeForm_validate https_only brew_request (AddCafeForm brew_request)
   \<and> form brew_request ''name'' \<notin> set (map name (table empty_state))
   \<and> (\<exists>row. add_cafe https_only brew_request empty_state =
         (Inr (redirect ''get_all_cafes''), empty_state\<lparr>table := [row]\<rparr>)
       \<and> name row = Some (ustr ''Brew & Bytes'') \<and> has_toilet row \<and> \<not> has_sockets row)"
proof -
  from add_cafe_inserts_one_row [OF brew_submitted brew_valid brew_fresh_empty]
  obtain row p where
    "add_cafe https_only brew_request empty_state =
       (Inr (redirect ''get_all_cafes''), empty_state\<lparr>table := table empty_state @ [row]\<rparr>)"
    "name row = form brew_request ''name''"
    "form brew_request ''has_toilet'' = Some (if has_toilet row then YES else NO)"
    "form brew_request ''has_sockets'' = Some (if has_sockets row then YES else NO)"
    by blast
  then have "add_cafe https_only brew_request empty_state =
         (Inr (redirect ''get_all_cafes''), empty_state\<lparr>table := [row]\<rparr>)
       \<and> name row = Some (ustr ''Brew & Bytes'') \<and> has_toilet row \<and> \<not> has_sockets row"
    by (simp add: brew_request_def brew_fields empty_state_def YES_neq_NO YES_neq_NO [symmetric] split: if_splits)
  then show ?thesis
    using brew_submitted brew_valid brew_fresh_empty by blast
qed

text \<open>
  Claim C1 as stated does not hold for every valid submission: the column \<open>name\<close> is
  unique, so a valid submission that repeats the name of a stored cafe makes the commit
  raise \<open>IntegrityError\<close>, which \<open>add_cafe\<close> does not catch, and the row count stays
  as it was.
\<close>

theorem add_cafe_duplicate_name_counterexample:
  "is_submitted brew_request
   \<and> AddCafeForm_validate https_only brew_request (AddCafeForm brew_request)
   \<and> add_cafe https_only brew_request brew_state = (Inl IntegrityError, brew_state)
   \<and> length (table (snd (add_cafe https_only brew_request brew_state)))
       \<noteq> length (table brew_state) + 1"
proof -
  have "name (new_cafe brew_request (next_id (table brew_state))) \<in> set (map name (table brew_state))"
    by (simp add: brew_state_def brew_row_def new_cafe_def)
  then have "db_insert (table brew_state) (new_cafe brew_request) = Inl IntegrityError"
    by (simp add: db_insert_def Let_def)
  then have "add_cafe https_only brew_request brew_state = (Inl IntegrityError, brew_state)"
    using brew_submitted brew_valid by (simp add: add_cafe_def Let_def)
  then show ?thesis using brew_submitted brew_valid by simp
qed
text \<open>
  Claim C6. Whenever \<open>add_cafe\<close> stores a row, the request carries a price \<open>p\<close> and the
  stored price is the pound sign followed by \<open>p\<close>, whatever \<open>p\<close> is: nothing in the
  handler looks at the content of \<open>p\<close>, so a price that already begins with the pound sign
  gets a second one. The price "3.50" of the example is stored as the pound sign followed
  by "3.50".
\<close>

theorem add_cafe_price_prefixed:
  assumes "table (snd (add_cafe URL req s)) \<noteq> table s"
  shows "\<exists>row p. form req ''coffee_price'' = Some p
       \<and> table (snd (add_cafe URL req s)) = table s @ [row]
       \<and> coffee_price row = Some (pound @ p)"
proof -
  from assms have ok: "is_submitted req" "AddCafeForm_validate URL req (AddCafeForm req)"
    by (auto simp: add_cafe_def Let_def split: if_splits)
  then have "DataRequired (form req ''coffee_price'')"
    by (simp add: AddCafeForm_validate_def AddCafeForm_submitted)
  then obtain p where p: "form req ''coffee_price'' = Some p"
    using DataRequired_not_None by fastforce
  from assms ok obtain rows where
    ins: "db_insert (table s) (new_cafe req) = Inr rows"
    and tab: "table (snd (add_cafe URL req s)) = rows"
    by (cases "db_insert (table s) (new_cafe req)") (auto simp: add_cafe_def Let_def)
  from ins have "rows = table s @ [new_cafe req (next_id (table s))]"
    by (auto simp: db_insert_def Let_def split: if_splits)
  moreover have "coffee_price (new_cafe req (next_id (table s))) = Some (pound @ p)"
    by (simp add: new_cafe_def p format_opt_def)
  ultimately show ?thesis using p tab by blast
qed

lemma brew_add_empty:
  "add_cafe https_only brew_request empty_state =
     (Inr (redirect ''get_all_cafes''), empty_state\<lparr>table := [new_cafe brew_request 1]\<rparr>)"
proof -
  have "not_null (new_cafe brew_request 1)"
    using valid_add_not_null [OF brew_submitted brew_valid] .
  then have "db_insert [] (new_cafe brew_request) = Inr [new_cafe brew_request 1]"
    by (simp add: db_insert_def Let_def next_id_def)
  then show ?thesis
    using brew_submitted brew_valid by (simp add: add_cafe_def Let_def empty_state_def)
qed

theorem add_cafe_price_prefixed_witness:
  "table (snd (add_cafe https_only brew_request empty_state)) \<noteq> table empty_state
   \<and> form brew_request ''coffee_price'' = Some (ustr ''3.50'')
   \<and> (\<exists>row. table (snd (add_cafe https_only brew_request empty_state)) = [row]
        \<and> coffee_price row = Some (163 # ustr ''3.50''))"
proof -
  have changed: "table (snd (add_cafe https_only brew_request empty_state)) \<noteq> table empty_state"
    by (simp add: brew_add_empty) (simp add: empty_state_def)
  have price: "form brew_request ''coffee_price'' = Some (ustr ''3.50'')"
    by (simp add: brew_request_def brew_fields)
  from add_cafe_price_prefixed [OF changed] obtain row p where
    "form brew_request ''coffee_price'' = Some p"
    "table (snd (add_cafe https_only brew_request empty_state)) = table empty_state @ [row]"
    "coffee_price row = Some (pound @ p)"
    by blast
  with price have "table (snd (add_cafe https_only brew_request empty_state)) = [row]
      \<and> coffee_price row = Some (163 # ustr ''3.50'')"
    by (simp add: empty_state_def pound_def)
  with changed price show ?thesis by blast
qed

section \<open>Updating a cafe\<close>

lemma startswith_pound: "startswith p pound \<longleftrightarrow> (\<exists>rest. p = pound @ rest)"
  by (cases p) (auto simp: startswith_def pound_def)

lemma not_isspace_pound: "\<not> isspace 163"
  by (simp add: isspace_def)

lemma DataRequired_pound: "DataRequired (Some (pound @ rest))"
  using not_isspace_pound by (auto simp: DataRequired_iff pound_def)

lemma get_or_404_Inr: "get_or_404 rows i = Inr c \<Longrightarrow> c \<in> set rows \<and> id_col c = i"
  unfolding get_or_404_def by (auto split: option.splits simp: find_Some_iff)

lemma get_or_404_Inl: "get_or_404 rows i = Inl e \<Longrightarrow> e = NotFound \<and> i \<notin> set (map id_col rows)"
  unfolding get_or_404_def by (auto split: option.splits simp: find_None_iff)

lemma get_or_404_absent: "i \<notin> set (map id_col rows) \<Longrightarrow> get_or_404 rows i = Inl NotFound"
  by (cases "get_or_404 rows i") (auto dest: get_or_404_Inl get_or_404_Inr)

lemma update_cafe_redirect:
  assumes "update_cafe URL cafe_id req s = (Inr (redirect e), s2)"
  shows "\<exists>c rows. get_or_404 (table s) cafe_id = Inr c \<and> is_submitted req
       \<and> UpdateCafeForm_validate URL req (UpdateCafeForm req c)
       \<and> db_update (table s) (assign_form c (UpdateCafeForm req c)) = Inr rows
       \<and> table s2 = rows"
  using assms
  by (auto simp: update_cafe_def Let_def flash_def split: sum.splits if_splits)

text \<open>
  Claim C2. The custom validator of the update form raises its error exactly when the
  price does not begin with the pound sign, and raises nothing when it does; with the
  \<open>DataRequired\<close> validator that runs before it, the price field of the update form is
  valid exactly when the submitted price begins with the pound sign. The update path
  stores the submitted price as it is: after an update that succeeds, the row of the
  given key exists and every row of that key carries the submitted price, with no glyph
  added.
\<close>

theorem validate_coffee_price_spec:
  "((\<exists>e. validate_coffee_price p = Inl e) \<longleftrightarrow> \<not> startswith p pound)
   \<and> (startswith p pound \<longrightarrow> validate_coffee_price p = Inr ())
   \<and> (startswith p pound \<longleftrightarrow> (\<exists>rest. p = pound @ rest))
   \<and> (coffee_price_field_ok (Some p) \<longleftrightarrow> startswith p pound)
   \<and> (update_cafe URL cafe_id req s = (Inr (redirect e), s2) \<and> form req ''coffee_price'' = Some p
        \<longrightarrow> (\<exists>r\<in>set (table s2). id_col r = cafe_id)
          \<and> (\<forall>r\<in>set (table s2). id_col r = cafe_id \<longrightarrow> coffee_price r = Some p))"
proof -
  have a: "(\<exists>e. validate_coffee_price p = Inl e) \<longleftrightarrow> \<not> startswith p pound"
    by (simp add: validate_coffee_price_def)
  have b: "startswith p pound \<longrightarrow> validate_coffee_price p = Inr ()"
    by (simp add: validate_coffee_price_def)
  have c: "coffee_price_field_ok (Some p) \<longleftrightarrow> startswith p pound"
    using DataRequired_pound
    by (auto simp: coffee_price_field_ok_def validate_coffee_price_def startswith_pound)
  have d: "(\<exists>r\<in>set (table s2). id_col r = cafe_id)
          \<and> (\<forall>r\<in>set (table s2). id_col r = cafe_id \<longrightarrow> coffee_price r = Some p)"
    if run: "update_cafe URL cafe_id req s = (Inr (redirect e), s2)"
      and sent: "form req ''coffee_price'' = Some p"
  proof -
    from update_cafe_redirect [OF run] obtain c rows where
      c: "get_or_404 (table s) cafe_id = Inr c" and sub: "is_submitted req"
      and upd: "db_update (table s) (assign_form c (UpdateCafeForm req c)) = Inr rows"
      and tab: "table s2 = rows"
      by blast
    define c2 where "c2 = assign_form c (UpdateCafeForm req c)"
    have price: "coffee_price c2 = Some p"
      using sub sent by (simp add: c2_def assign_form_def UpdateCafeForm_def process_field_def)
    have key: "id_col c2 = cafe_id" "c \<in> set (table s)"
      using get_or_404_Inr [OF c] by (simp_all add: c2_def assign_form_def)
    from upd have rows: "rows = map (\<lambda>r. if id_col r = id_col c2 then c2 else r) (table s)"
      by (auto simp: db_update_def c2_def split: if_splits)
    have "c2 \<in> set rows"
      using key get_or_404_Inr [OF c] by (force simp: rows)
    moreover have "\<forall>r\<in>set rows. id_col r = cafe_id \<longrightarrow> coffee_price r = Some p"
      using key price by (auto simp: rows)
    ultimately show ?thesis using key tab by blast
  qed
  from a b c d startswith_pound show ?thesis by blast
qed
lemma rename_fields:
  "form rename_request ''name'' = Some (ustr ''Brew & Bytes'')"
  "form rename_request ''map_url'' = Some (ustr ''https://maps.example.com/brew'')"
  "form rename_request ''img_url'' = Some (ustr ''https://img.example.com/brew.jpg'')"
  "form rename_request ''location'' = Some (ustr ''Peckham'')"
  "form rename_request ''seats'' = Some (ustr ''20-30'')"
  "form rename_request ''has_toilet'' = Some YES"
  "form rename_request ''has_wifi'' = Some YES"
  "form rename_request ''has_sockets'' = Some NO"
  "form rename_request ''can_take_calls'' = Some NO"
  "form rename_request ''coffee_price'' = Some (pound @ ustr ''3.50'')"
  by (simp_all add: rename_request_def brew_form_def)

lemma rename_submitted: "is_submitted rename_request"
  by (simp add: is_submitted_def rename_request_def)

lemma rename_form:
  "UpdateCafeForm rename_request c =
     \<lparr>name_data = Some (ustr ''Brew & Bytes''),
      map_url_data = Some (ustr ''https://maps.example.com/brew''),
      img_url_data = Some (ustr ''https://img.example.com/brew.jpg''),
      location_data = Some (ustr ''Peckham''),
      seats_data = Some (ustr ''20-30''),
      has_toilet_data = Some YES,
      has_wifi_data = Some YES,
      has_sockets_data = Some NO,
      can_take_calls_data = Some NO,
      coffee_price_data = Some (pound @ ustr ''3.50'')\<rparr>"
  by (simp add: UpdateCafeForm_def process_field_def rename_submitted rename_fields)

lemma rename_valid:
  "UpdateCafeForm_validate https_only rename_request (UpdateCafeForm rename_request c)"
proof -
  have "coffee_price_field_ok (Some (pound @ ustr ''3.50''))"
    using DataRequired_pound
    by (simp add: coffee_price_field_ok_def validate_coffee_price_def startswith_pound)
  moreover have "csrf_valid rename_request"
    by (simp add: rename_request_def)
  ultimately show ?thesis
    by (simp add: rename_form UpdateCafeForm_validate_def DataRequired_iff url_field_ok_def
        select_field_ok_def https_only_def startswith_def YES_def NO_def ustr_def isspace_def)
qed

lemma get_tea: "get_or_404 [tea_row] 2 = Inr tea_row" "get_or_404 [brew_row, tea_row] 2 = Inr tea_row"
  by (simp_all add: get_or_404_def tea_row_def brew_row_def new_cafe_def)

lemma rename_tea_alone:
  "fst (update_cafe https_only 2 rename_request tea_state) = Inr (redirect ''get_all_cafes'')"
proof -
  have "db_update [tea_row] (assign_form tea_row (UpdateCafeForm rename_request tea_row))
      = Inr [assign_form tea_row (UpdateCafeForm rename_request tea_row)]"
    by (simp add: db_update_def rename_form assign_form_def not_null_def)
  then show ?thesis
    using rename_submitted rename_valid [of tea_row]
    by (simp add: update_cafe_def tea_state_def get_tea Let_def)
qed

theorem validate_coffee_price_spec_witness:
  "startswith (pound @ ustr ''3.50'') pound
   \<and> validate_coffee_price (pound @ ustr ''3.50'') = Inr ()
   \<and> \<not> startswith (ustr ''3.50'') pound
   \<and> validate_coffee_price (ustr ''3.50'') \<noteq> Inr ()
   \<and> fst (update_cafe https_only 2 rename_request tea_state) = Inr (redirect ''get_all_cafes'')
   \<and> form rename_request ''coffee_price'' = Some (pound @ ustr ''3.50'')
   \<and> (\<exists>r\<in>set (table (snd (update_cafe https_only 2 rename_request tea_state))).
         id_col r = 2 \<and> coffee_price r = Some (pound @ ustr ''3.50''))"
proof -
  have sw: "startswith (pound @ ustr ''3.50'') pound"
    by (simp add: startswith_pound)
  have nsw: "\<not> startswith (ustr ''3.50'') pound"
    by (simp add: startswith_def pound_def ustr_def)
  have run: "update_cafe https_only 2 rename_request tea_state =
      (Inr (redirect ''get_all_cafes''), snd (update_cafe https_only 2 rename_request tea_state))"
    using rename_tea_alone by (simp add: prod_eq_iff)
  note good = validate_coffee_price_spec
    [of "pound @ ustr ''3.50''" https_only 2 rename_request tea_state "''get_all_cafes''"
      "snd (update_cafe https_only 2 rename_request tea_state)"]
  note bad = validate_coffee_price_spec
    [of "ustr ''3.50''" https_only 2 rename_request tea_state "''get_all_cafes''"
      "snd (update_cafe https_only 2 rename_request tea_state)"]
  from bad nsw have "validate_coffee_price (ustr ''3.50'') \<noteq> Inr ()" by auto
  with good sw nsw run rename_fields(10) rename_tea_alone show ?thesis by blast
qed

lemma process_field_sent:
  "is_submitted req \<Longrightarrow> form req k = Some v \<Longrightarrow> process_field req k d = Some v"
  by (simp add: process_field_def)

lemma valid_update_not_null:
  assumes "UpdateCafeForm_validate URL req f"
  shows "not_null (assign_form c f)"
proof -
  from assms have
    "DataRequired (name_data f)" "url_field_ok URL (map_url_data f)"
    "url_field_ok URL (img_url_data f)" "DataRequired (location_data f)"
    "DataRequired (seats_data f)"
    by (simp_all add: UpdateCafeForm_validate_def)
  then have "name_data f \<noteq> None" "map_url_data f \<noteq> None" "img_url_data f \<noteq> None"
    "location_data f \<noteq> None" "seats_data f \<noteq> None"
    by (blast dest: DataRequired_not_None url_field_ok_Some)+
  then show ?thesis by (simp add: not_null_def assign_form_def)
qed

lemma rename_collides:
  "db_update (table brew_state) (assign_form tea_row (UpdateCafeForm rename_request tea_row))
     = Inl IntegrityError"
proof -
  have "name brew_row = Some (ustr ''Brew & Bytes'')" "id_col brew_row = 1" "id_col tea_row = 2"
    by (simp_all add: brew_row_def new_cafe_def brew_request_def brew_fields tea_row_def)
  then show ?thesis
    by (simp add: db_update_def brew_state_def rename_form assign_form_def)
qed

text \<open>
  Claim C5 is not what the code does. When an update passes validation and its commit
  fails, the view ends with the \<open>PendingRollbackError\<close> raised in its \<open>except\<close> block:
  the request gets no response from the view, so no form is shown again, and the state
  after the request is the state before it, so no notice has been flashed. The table is
  unchanged, which is all of the claim that holds.
\<close>

theorem update_cafe_commit_failure_raises:
  assumes "get_or_404 (table s) cafe_id = Inr c"
    and "is_submitted req"
    and "UpdateCafeForm_validate URL req (UpdateCafeForm req c)"
    and "db_update (table s) (assign_form c (UpdateCafeForm req c)) = Inl e"
  shows "update_cafe URL cafe_id req s = (Inl PendingRollbackError, s)"
  using assms by (simp add: update_cafe_def Let_def)

theorem update_cafe_commit_failure_raises_witness:
  "get_or_404 (table brew_state) 2 = Inr tea_row
   \<and> is_submitted rename_request
   \<and> UpdateCafeForm_validate https_only rename_request (UpdateCafeForm rename_request tea_row)
   \<and> db_update (table brew_state) (assign_form tea_row (UpdateCafeForm rename_request tea_row))
       = Inl IntegrityError
   \<and> update_cafe https_only 2 rename_request brew_state = (Inl PendingRollbackError, brew_state)
   \<and> flashed (snd (update_cafe https_only 2 rename_request brew_state)) = []"
proof -
  have g: "get_or_404 (table brew_state) 2 = Inr tea_row"
    by (simp add: brew_state_def get_tea)
  note run = update_cafe_commit_failure_raises [OF g rename_submitted rename_valid rename_collides]
  have "flashed brew_state = []"
    by (simp add: brew_state_def)
  with run have "flashed (snd (update_cafe https_only 2 rename_request brew_state)) = []"
    by simp
  with run g rename_submitted rename_valid rename_collides show ?thesis by blast
qed

section \<open>Reading cafes\<close>

lemma to_dict_values:
  "to_dict c =
            [(''id'', PyInt (id_col c)),
             (''name'', case name c of None \<Rightarrow> PyNone | Some v \<Rightarrow> PyStr v),
             (''map_url'', case map_url c of None \<Rightarrow> PyNone | Some v \<Rightarrow> PyStr v),
             (''img_url'', case img_url c of None \<Rightarrow> PyNone | Some v \<Rightarrow> PyStr v),
             (''location'', case location c of None \<Rightarrow> PyNone | Some v \<Rightarrow> PyStr v),
             (''seats'', case seats c of None \<Rightarrow> PyNone | Some v \<Rightarrow> PyStr v),
             (''has_toilet'', PyBool (has_toilet c)),
             (''has_wifi'', PyBool (has_wifi c)),
             (''has_sockets'', PyBool (has_sockets c)),
             (''can_take_calls'', PyBool (can_take_calls c)),
             (''coffee_price'',
              case coffee_price c of None \<Rightarrow> PyNone | Some v \<Rightarrow> PyStr v)]"
  by (simp add: to_dict_def of_opt_def)

lemma to_dict_inj: "to_dict c = to_dict d \<Longrightarrow> c = d"
  by (cases c, cases d) (auto simp: to_dict_def of_opt_def split: option.splits)

lemma brew_row_dict:
  "to_dict brew_row =
     [(''id'', PyInt 1),
      (''name'', PyStr (ustr ''Brew & Bytes'')),
      (''map_url'', PyStr (ustr ''https://maps.example.com/brew'')),
      (''img_url'', PyStr (ustr ''https://img.example.com/brew.jpg'')),
      (''location'', PyStr (ustr ''Peckham'')),
      (''seats'', PyStr (ustr ''20-30'')),
      (''has_toilet'', PyBool True),
      (''has_wifi'', PyBool True),
      (''has_sockets'', PyBool False),
      (''can_take_calls'', PyBool False),
      (''coffee_price'', PyStr (pound @ ustr ''3.50''))]"
  by (simp add: to_dict_def of_opt_def brew_row_def new_cafe_def brew_request_def brew_fields
      format_opt_def YES_neq_NO [symmetric])

lemma tea_row_dict:
  "to_dict tea_row =
     [(''id'', PyInt 2),
      (''name'', PyStr (ustr ''Tea Corner'')),
      (''map_url'', PyStr (ustr ''https://maps.example.com/tea'')),
      (''img_url'', PyStr (ustr ''https://img.example.com/tea.jpg'')),
      (''location'', PyStr (ustr ''Peckham'')),
      (''seats'', PyStr (ustr ''0-10'')),
      (''has_toilet'', PyBool False),
      (''has_wifi'', PyBool True),
      (''has_sockets'', PyBool True),
      (''can_take_calls'', PyBool False),
      (''coffee_price'', PyStr (pound @ ustr ''2.80''))]"
  by (simp add: to_dict_def of_opt_def tea_row_def)

text \<open>
  Claim C4. If no row has the queried location, \<open>/search\<close> answers with the not-found
  payload, the one entry "Not Found" with its message, and not with an error. If some row
  has it, the answer is the dictionary of the first such row of the table (no earlier row
  has the queried location), and that dictionary holds, under the name of each of the
  eleven columns and in their order, the value the row has in that column. In every case
  the request ends with a response of status 200 and nothing is written.
\<close>

theorem get_cafe_at_location_spec:
  "((\<forall>c\<in>set (table s). location c \<noteq> args req ''loc'') \<longrightarrow>
      get_cafe_at_location req s =
        (Inr (jsonify ''error''
            [(''Not Found'',
             PyStr (ustr ''Sorry, we don'' @ [39] @ ustr ''t have a cafe at this location.''))]),
         s))
   \<and> ((\<exists>c\<in>set (table s). location c = args req ''loc'') \<longrightarrow>
      (\<exists>i<length (table s). \<exists>row.
          row = table s ! i
          \<and> location row = args req ''loc''
          \<and> (\<forall>j<i. location (table s ! j) \<noteq> args req ''loc'')
          \<and> get_cafe_at_location req s =
            (Inr (jsonify ''cafe''
            [(''id'', PyInt (id_col row)),
             (''name'', case name row of None \<Rightarrow> PyNone | Some v \<Rightarrow> PyStr v),
             (''map_url'', case map_url row of None \<Rightarrow> PyNone | Some v \<Rightarrow> PyStr v),
             (''img_url'', case img_url row of None \<Rightarrow> PyNone | Some v \<Rightarrow> PyStr v),
             (''location'', case location row of None \<Rightarrow> PyNone | Some v \<Rightarrow> PyStr v),
             (''seats'', case seats row of None \<Rightarrow> PyNone | Some v \<Rightarrow> PyStr v),
             (''has_toilet'', PyBool (has_toilet row)),
             (''has_wifi'', PyBool (has_wifi row)),
             (''has_sockets'', PyBool (has_sockets row)),
             (''can_take_calls'', PyBool (can_take_calls row)),
             (''coffee_price'',
              case coffee_price row of None \<Rightarrow> PyNone | Some v \<Rightarrow> PyStr v)]),
             s)))
   \<and> (case fst (get_cafe_at_location req s) of
         Inl e \<Rightarrow> False
       | Inr r \<Rightarrow> status_code r = 200)
   \<and> snd (get_cafe_at_location req s) = s"
proof (intro conjI impI)
  assume "\<forall>c\<in>set (table s). location c \<noteq> args req ''loc''"
  then have "find (\<lambda>c. location c = args req ''loc'') (table s) = None"
    by (simp add: find_None_iff)
  then show "get_cafe_at_location req s =
        (Inr (jsonify ''error''
            [(''Not Found'',
             PyStr (ustr ''Sorry, we don'' @ [39] @ ustr ''t have a cafe at this location.''))]),
         s)"
    by (simp add: get_cafe_at_location_def not_found_payload_def)
next
  assume "\<exists>c\<in>set (table s). location c = args req ''loc''"
  then have "find (\<lambda>c. location c = args req ''loc'') (table s) \<noteq> None"
    by (auto simp: find_None_iff)
  then obtain c where c: "find (\<lambda>c. location c = args req ''loc'') (table s) = Some c"
    by blast
  then obtain i where i: "i < length (table s)" "location (table s ! i) = args req ''loc''"
    "c = table s ! i" "\<forall>j<i. location (table s ! j) \<noteq> args req ''loc''"
    unfolding find_Some_iff by blast
  have "get_cafe_at_location req s = (Inr (jsonify ''cafe'' (to_dict (table s ! i))), s)"
    using c i(3) by (simp add: get_cafe_at_location_def)
  then have "get_cafe_at_location req s =
            (Inr (jsonify ''cafe''
            [(''id'', PyInt (id_col (table s ! i))),
             (''name'', case name (table s ! i) of None \<Rightarrow> PyNone | Some v \<Rightarrow> PyStr v),
             (''map_url'', case map_url (table s ! i) of None \<Rightarrow> PyNone | Some v \<Rightarrow> PyStr v),
             (''img_url'', case img_url (table s ! i) of None \<Rightarrow> PyNone | Some v \<Rightarrow> PyStr v),
             (''location'', case location (table s ! i) of None \<Rightarrow> PyNone | Some v \<Rightarrow> PyStr v),
             (''seats'', case seats (table s ! i) of None \<Rightarrow> PyNone | Some v \<Rightarrow> PyStr v),
             (''has_toilet'', PyBool (has_toilet (table s ! i))),
             (''has_wifi'', PyBool (has_wifi (table s ! i))),
             (''has_sockets'', PyBool (has_sockets (table s ! i))),
             (''can_take_calls'', PyBool (can_take_calls (table s ! i))),
             (''coffee_price'',
              case coffee_price (table s ! i) of None \<Rightarrow> PyNone | Some v \<Rightarrow> PyStr v)]),
             s)"
    by (simp only: to_dict_values)
  with i show "\<exists>i<length (table s). \<exists>row.
          row = table s ! i
          \<and> location row = args req ''loc''
          \<and> (\<forall>j<i. location (table s ! j) \<noteq> args req ''loc'')
          \<and> get_cafe_at_location req s =
            (Inr (jsonify ''cafe''
            [(''id'', PyInt (id_col row)),
             (''name'', case name row of None \<Rightarrow> PyNone | Some v \<Rightarrow> PyStr v),
             (''map_url'', case map_url row of None \<Rightarrow> PyNone | Some v \<Rightarrow> PyStr v),
             (''img_url'', case img_url row of None \<Rightarrow> PyNone | Some v \<Rightarrow> PyStr v),
             (''location'', case location row of None \<Rightarrow> PyNone | Some v \<Rightarrow> PyStr v),
             (''seats'', case seats row of None \<Rightarrow> PyNone | Some v \<Rightarrow> PyStr v),
             (''has_toilet'', PyBool (has_toilet row)),
             (''has_wifi'', PyBool (has_wifi row)),
             (''has_sockets'', PyBool (has_sockets row)),
             (''can_take_calls'', PyBool (can_take_calls row)),
             (''coffee_price'',
              case coffee_price row of None \<Rightarrow> PyNone | Some v \<Rightarrow> PyStr v)]),
             s)"
    by blast
next
  show "case fst (get_cafe_at_location req s) of
         Inl e \<Rightarrow> False
       | Inr r \<Rightarrow> status_code r = 200"
    by (simp add: get_cafe_at_location_def status_code_def split: option.splits)
next
  show "snd (get_cafe_at_location req s) = s"
    by (simp add: get_cafe_at_location_def split: option.splits)
qed

lemma peckham_neq_soho: "ustr ''Peckham'' \<noteq> ustr ''Soho''"
  by (simp add: ustr_def)

lemma brew_state_locations:
  "location brew_row = Some (ustr ''Peckham'')" "location tea_row = Some (ustr ''Peckham'')"
  by (simp_all add: brew_row_def new_cafe_def brew_request_def brew_fields tea_row_def)

theorem get_cafe_at_location_spec_witness:
  "args (search_request (ustr ''Soho'')) ''loc'' \<notin> set (map location (table brew_state))
   \<and> get_cafe_at_location (search_request (ustr ''Soho'')) brew_state =
       (Inr (jsonify ''error''
            [(''Not Found'',
             PyStr (ustr ''Sorry, we don'' @ [39] @ ustr ''t have a cafe at this location.''))]),
        brew_state)
   \<and> (\<exists>c\<in>set (table brew_state). location c = args (search_request (ustr ''Peckham'')) ''loc'')
   \<and> get_cafe_at_location (search_request (ustr ''Peckham'')) brew_state =
       (Inr (jsonify ''cafe''
     [(''id'', PyInt 1),
      (''name'', PyStr (ustr ''Brew & Bytes'')),
      (''map_url'', PyStr (ustr ''https://maps.example.com/brew'')),
      (''img_url'', PyStr (ustr ''https://img.example.com/brew.jpg'')),
      (''location'', PyStr (ustr ''Peckham'')),
      (''seats'', PyStr (ustr ''20-30'')),
      (''has_toilet'', PyBool True),
      (''has_wifi'', PyBool True),
      (''has_sockets'', PyBool False),
      (''can_take_calls'', PyBool False),
      (''coffee_price'', PyStr (pound @ ustr ''3.50''))]),
        brew_state)"
proof -
  have none: "\<forall>c\<in>set (table brew_state). location c \<noteq> args (search_request (ustr ''Soho'')) ''loc''"
    using peckham_neq_soho by (simp add: brew_state_def search_request_def brew_state_locations)
  have some: "\<exists>c\<in>set (table brew_state). location c = args (search_request (ustr ''Peckham'')) ''loc''"
    by (simp add: brew_state_def search_request_def brew_state_locations)
  from get_cafe_at_location_spec [of brew_state "search_request (ustr ''Soho'')"] none
  have miss: "get_cafe_at_location (search_request (ustr ''Soho'')) brew_state =
       (Inr (jsonify ''error''
            [(''Not Found'',
             PyStr (ustr ''Sorry, we don'' @ [39] @ ustr ''t have a cafe at this location.''))]),
        brew_state)"
    by blast
  from get_cafe_at_location_spec [of brew_state "search_request (ustr ''Peckham'')"] some
  obtain i row where i: "i < length (table brew_state)" "row = table brew_state ! i"
    "\<forall>j<i. location (table brew_state ! j) \<noteq> args (search_request (ustr ''Peckham'')) ''loc''"
    "get_cafe_at_location (search_request (ustr ''Peckham'')) brew_state =
            (Inr (jsonify ''cafe''
            [(''id'', PyInt (id_col row)),
             (''name'', case name row of None \<Rightarrow> PyNone | Some v \<Rightarrow> PyStr v),
             (''map_url'', case map_url row of None \<Rightarrow> PyNone | Some v \<Rightarrow> PyStr v),
             (''img_url'', case img_url row of None \<Rightarrow> PyNone | Some v \<Rightarrow> PyStr v),
             (''location'', case location row of None \<Rightarrow> PyNone | Some v \<Rightarrow> PyStr v),
             (''seats'', case seats row of None \<Rightarrow> PyNone | Some v \<Rightarrow> PyStr v),
             (''has_toilet'', PyBool (has_toilet row)),
             (''has_wifi'', PyBool (has_wifi row)),
             (''has_sockets'', PyBool (has_sockets row)),
             (''can_take_calls'', PyBool (can_take_calls row)),
             (''coffee_price'',
              case coffee_price row of None \<Rightarrow> PyNone | Some v \<Rightarrow> PyStr v)]),
             brew_state)"
    by blast
  have "i = 0"
  proof (rule ccontr)
    assume "i \<noteq> 0"
    then have "0 < i" by simp
    with i(3) have "location (table brew_state ! 0)
        \<noteq> args (search_request (ustr ''Peckham'')) ''loc''"
      by blast
    then show False
      by (simp add: brew_state_def search_request_def brew_state_locations)
  qed
  with i(2) have "row = brew_row" by (simp add: brew_state_def)
  with i(4) have "get_cafe_at_location (search_request (ustr ''Peckham'')) brew_state =
      (Inr (jsonify ''cafe'' (to_dict brew_row)), brew_state)"
    by (simp only: to_dict_values)
  then have hit: "get_cafe_at_location (search_request (ustr ''Peckham'')) brew_state =
       (Inr (jsonify ''cafe''
     [(''id'', PyInt 1),
      (''name'', PyStr (ustr ''Brew & Bytes'')),
      (''map_url'', PyStr (ustr ''https://maps.example.com/brew'')),
      (''img_url'', PyStr (ustr ''https://img.example.com/brew.jpg'')),
      (''location'', PyStr (ustr ''Peckham'')),
      (''seats'', PyStr (ustr ''20-30'')),
      (''has_toilet'', PyBool True),
      (''has_wifi'', PyBool True),
      (''has_sockets'', PyBool False),
      (''can_take_calls'', PyBool False),
      (''coffee_price'', PyStr (pound @ ustr ''3.50''))]),
        brew_state)"
    by (simp only: brew_row_dict)
  from none have "args (search_request (ustr ''Soho'')) ''loc'' \<notin> set (map location (table brew_state))"
    by auto
  with miss some hit show ?thesis by blast
qed

text \<open>
  Claim C7 is not what the code does. On an empty table \<open>get_random_cafe\<close> calls
  \<open>random.choice\<close> on an empty list; the \<open>IndexError\<close> it raises is not caught, so the
  request ends with that exception and no response, whatever the generator draws.
\<close>

theorem get_random_cafe_empty_table:
  "get_random_cafe r (s\<lparr>table := []\<rparr>) = (Inl IndexError, s\<lparr>table := []\<rparr>)"
  by (simp add: get_random_cafe_def choice_def)

lemma count_positions:
  "length (filter (\<lambda>i. xs ! i = c) [0..<length xs]) = length (filter (\<lambda>x. x = c) xs)"
proof -
  have "length (filter (\<lambda>x. x = c) xs) = length (filter (\<lambda>x. x = c) (map ((!) xs) [0..<length xs]))"
    by (simp only: map_nth)
  also have "\<dots> = length (filter (\<lambda>i. xs ! i = c) [0..<length xs])"
    by (simp add: filter_map comp_def)
  finally show ?thesis by simp
qed

lemma one_position:
  assumes "distinct xs" and "c \<in> set xs"
  shows "length (filter (\<lambda>i. xs ! i = c) [0..<length xs]) = 1"
proof -
  from assms(1) have "length (filter (\<lambda>x. x = c) xs) = card ({x. x = c} \<inter> set xs)"
    by (rule distinct_length_filter)
  also from assms(2) have "{x. x = c} \<inter> set xs = {c}" by auto
  finally show ?thesis by (simp add: count_positions)
qed

lemma get_random_cafe_at:
  "table s \<noteq> [] \<Longrightarrow>
     get_random_cafe r s = (Inr (jsonify ''cafe'' (to_dict (table s ! r))), s)"
  by (simp add: get_random_cafe_def choice_def)

text \<open>
  Claim C8. Take a table that is not empty, with the distinct keys a primary key has.
  For every draw \<open>r\<close> below the number of rows, \<open>/random\<close> answers with the dictionary of
  the row at position \<open>r\<close>, which is a row of the table, and writes nothing; the
  dictionary of a row holds, under the name of each column, the value the row has in that
  column, so the answer tells which row was chosen (two rows with the same dictionary
  are the same row). The choice is uniform: for every row of the table, the probability
  that the answer is the dictionary of that row is one over the number of rows, and the
  probability that the answer is the dictionary of some row of the table is one.
\<close>

theorem get_random_cafe_uniform:
  assumes "table s \<noteq> []" and "distinct (map id_col (table s))"
  shows "(\<forall>r<length (table s).
            table s ! r \<in> set (table s)
            \<and> get_random_cafe r s =
            (Inr (jsonify ''cafe''
            [(''id'', PyInt (id_col (table s ! r))),
             (''name'', case name (table s ! r) of None \<Rightarrow> PyNone | Some v \<Rightarrow> PyStr v),
             (''map_url'', case map_url (table s ! r) of None \<Rightarrow> PyNone | Some v \<Rightarrow> PyStr v),
             (''img_url'', case img_url (table s ! r) of None \<Rightarrow> PyNone | Some v \<Rightarrow> PyStr v),
             (''location'', case location (table s ! r) of None \<Rightarrow> PyNone | Some v \<Rightarrow> PyStr v),
             (''seats'', case seats (table s ! r) of None \<Rightarrow> PyNone | Some v \<Rightarrow> PyStr v),
             (''has_toilet'', PyBool (has_toilet (table s ! r))),
             (''has_wifi'', PyBool (has_wifi (table s ! r))),
             (''has_sockets'', PyBool (has_sockets (table s ! r))),
             (''can_take_calls'', PyBool (can_take_calls (table s ! r))),
             (''coffee_price'',
              case coffee_price (table s ! r) of None \<Rightarrow> PyNone | Some v \<Rightarrow> PyStr v)]),
             s))
       \<and> (\<forall>c\<in>set (table s).
            prob_draw (length (table s))
              (\<lambda>r. get_random_cafe r s = (Inr (jsonify ''cafe'' (to_dict c)), s))
            = 1 / real (length (table s)))
       \<and> prob_draw (length (table s))
            (\<lambda>r. \<exists>c\<in>set (table s).
               get_random_cafe r s = (Inr (jsonify ''cafe'' (to_dict c)), s))
           = 1
       \<and> (\<forall>c d. to_dict c = to_dict d \<longrightarrow> c = d)"
proof (intro conjI allI impI ballI)
  fix r
  assume "r < length (table s)"
  then show "table s ! r \<in> set (table s)" by simp
next
  have "filter (\<lambda>r. \<exists>c\<in>set (table s).
               get_random_cafe r s = (Inr (jsonify ''cafe'' (to_dict c)), s))
          [0..<length (table s)] = [0..<length (table s)]"
    by (rule filter_True) (auto simp: get_random_cafe_at [OF assms(1)])
  then show "prob_draw (length (table s))
            (\<lambda>r. \<exists>c\<in>set (table s).
               get_random_cafe r s = (Inr (jsonify ''cafe'' (to_dict c)), s))
           = 1"
    using assms(1) by (simp add: prob_draw_def)
next
  fix r
  have "get_random_cafe r s = (Inr (jsonify ''cafe'' (to_dict (table s ! r))), s)"
    using assms(1) by (rule get_random_cafe_at)
  then show "get_random_cafe r s =
            (Inr (jsonify ''cafe''
            [(''id'', PyInt (id_col (table s ! r))),
             (''name'', case name (table s ! r) of None \<Rightarrow> PyNone | Some v \<Rightarrow> PyStr v),
             (''map_url'', case map_url (table s ! r) of None \<Rightarrow> PyNone | Some v \<Rightarrow> PyStr v),
             (''img_url'', case img_url (table s ! r) of None \<Rightarrow> PyNone | Some v \<Rightarrow> PyStr v),
             (''location'', case location (table s ! r) of None \<Rightarrow> PyNone | Some v \<Rightarrow> PyStr v),
             (''seats'', case seats (table s ! r) of None \<Rightarrow> PyNone | Some v \<Rightarrow> PyStr v),
             (''has_toilet'', PyBool (has_toilet (table s ! r))),
             (''has_wifi'', PyBool (has_wifi (table s ! r))),
             (''has_sockets'', PyBool (has_sockets (table s ! r))),
             (''can_take_calls'', PyBool (can_take_calls (table s ! r))),
             (''coffee_price'',
              case coffee_price (table s ! r) of None \<Rightarrow> PyNone | Some v \<Rightarrow> PyStr v)]),
             s)"
    by (simp only: to_dict_values)
next
  fix c
  assume c: "c \<in> set (table s)"
  from assms(2) have d: "distinct (table s)" by (simp add: distinct_map)
  have "filter (\<lambda>r. get_random_cafe r s = (Inr (jsonify ''cafe'' (to_dict c)), s))
          [0..<length (table s)]
      = filter (\<lambda>r. table s ! r = c) [0..<length (table s)]"
    by (rule filter_cong) (auto simp: get_random_cafe_at [OF assms(1)] dest: to_dict_inj)
  then have "length (filter (\<lambda>r. get_random_cafe r s = (Inr (jsonify ''cafe'' (to_dict c)), s))
          [0..<length (table s)]) = 1"
    using one_position [OF d c] by simp
  then show "prob_draw (length (table s))
              (\<lambda>r. get_random_cafe r s = (Inr (jsonify ''cafe'' (to_dict c)), s))
            = 1 / real (length (table s))"
    by (simp add: prob_draw_def)
next
  fix c d :: cafe
  assume "to_dict c = to_dict d"
  then show "c = d" by (rule to_dict_inj)
qed

theorem get_random_cafe_uniform_witness:
  "table brew_state \<noteq> [] \<and> distinct (map id_col (table brew_state))
   \<and> tea_row \<in> set (table brew_state)
   \<and> get_random_cafe 1 brew_state =
       (Inr (jsonify ''cafe''
     [(''id'', PyInt 2),
      (''name'', PyStr (ustr ''Tea Corner'')),
      (''map_url'', PyStr (ustr ''https://maps.example.com/tea'')),
      (''img_url'', PyStr (ustr ''https://img.example.com/tea.jpg'')),
      (''location'', PyStr (ustr ''Peckham'')),
      (''seats'', PyStr (ustr ''0-10'')),
      (''has_toilet'', PyBool False),
      (''has_wifi'', PyBool True),
      (''has_sockets'', PyBool True),
      (''can_take_calls'', PyBool False),
      (''coffee_price'', PyStr (pound @ ustr ''2.80''))]),
        brew_state)
   \<and> prob_draw 2 (\<lambda>r. get_random_cafe r brew_state =
         (Inr (jsonify ''cafe'' (to_dict tea_row)), brew_state)) = 1 / 2"
proof -
  have ne: "table brew_state \<noteq> []"
    by (simp add: brew_state_def)
  have ids: "id_col brew_row = 1" "id_col tea_row = 2"
    by (simp_all add: brew_row_def new_cafe_def tea_row_def)
  then have di: "distinct (map id_col (table brew_state))"
    by (simp add: brew_state_def)
  have at: "table brew_state ! 1 = tea_row" and mem: "tea_row \<in> set (table brew_state)"
    and len: "length (table brew_state) = 2"
    by (simp_all add: brew_state_def)
  note uni = get_random_cafe_uniform [OF ne di]
  from uni len have "get_random_cafe 1 brew_state =
            (Inr (jsonify ''cafe''
            [(''id'', PyInt (id_col (table brew_state ! 1))),
             (''name'', case name (table brew_state ! 1) of None \<Rightarrow> PyNone | Some v \<Rightarrow> PyStr v),
             (''map_url'', case map_url (table brew_state ! 1) of None \<Rightarrow> PyNone | Some v \<Rightarrow> PyStr v),
             (''img_url'', case img_url (table brew_state ! 1) of None \<Rightarrow> PyNone | Some v \<Rightarrow> PyStr v),
             (''location'', case location (table brew_state ! 1) of None \<Rightarrow> PyNone | Some v \<Rightarrow> PyStr v),
             (''seats'', case seats (table brew_state ! 1) of None \<Rightarrow> PyNone | Some v \<Rightarrow> PyStr v),
             (''has_toilet'', PyBool (has_toilet (table brew_state ! 1))),
             (''has_wifi'', PyBool (has_wifi (table brew_state ! 1))),
             (''has_sockets'', PyBool (has_sockets (table brew_state ! 1))),
             (''can_take_calls'', PyBool (can_take_calls (table brew_state ! 1))),
             (''coffee_price'',
              case coffee_price (table brew_state ! 1) of None \<Rightarrow> PyNone | Some v \<Rightarrow> PyStr v)]),
             brew_state)"
    by simp
  then have "get_random_cafe 1 brew_state = (Inr (jsonify ''cafe'' (to_dict tea_row)), brew_state)"
    by (simp only: at to_dict_values)
  then have one: "get_random_cafe 1 brew_state =
       (Inr (jsonify ''cafe''
     [(''id'', PyInt 2),
      (''name'', PyStr (ustr ''Tea Corner'')),
      (''map_url'', PyStr (ustr ''https://maps.example.com/tea'')),
      (''img_url'', PyStr (ustr ''https://img.example.com/tea.jpg'')),
      (''location'', PyStr (ustr ''Peckham'')),
      (''seats'', PyStr (ustr ''0-10'')),
      (''has_toilet'', PyBool False),
      (''has_wifi'', PyBool True),
      (''has_sockets'', PyBool True),
      (''can_take_calls'', PyBool False),
      (''coffee_price'', PyStr (pound @ ustr ''2.80''))]),
        brew_state)"
    by (simp only: tea_row_dict)
  from uni mem have "prob_draw (length (table brew_state))
      (\<lambda>r. get_random_cafe r brew_state = (Inr (jsonify ''cafe'' (to_dict tea_row)), brew_state))
      = 1 / real (length (table brew_state))"
    by blast
  then have half: "prob_draw 2 (\<lambda>r. get_random_cafe r brew_state =
         (Inr (jsonify ''cafe'' (to_dict tea_row)), brew_state)) = 1 / 2"
    by (simp add: len)
  from ne di mem one half show ?thesis by blast
qed

section \<open>Deleting a cafe and reporting it closed\<close>




lemma delete_cafe_key_match:
  assumes "form req ''api_key'' = API_KEY cfg"
  shows "delete_cafe cfg smtp cafe_id req s =
     (case get_or_404 (table s) cafe_id of
        Inl e \<Rightarrow> (Inl e, s)
      | Inr c \<Rightarrow> (Inr (redirect ''get_all_cafes''),
          flash (Deleted (name c)) ''success'' (s\<lparr>table := db_delete (table s) c\<rparr>)))"
  using assms by (simp add: delete_cafe_def Let_def)

lemma delete_cafe_key_mismatch:
  assumes "form req ''api_key'' \<noteq> API_KEY cfg"
  shows "delete_cafe cfg smtp cafe_id req s =
     (if is_submitted req \<and> ReportClosed_validate req (ReportClosed req)
      then (case get_or_404 (table s) cafe_id of
              Inl e \<Rightarrow> (Inl e, s)
            | Inr c \<Rightarrow> (Inr (redirect ''get_all_cafes''),
                flash (ReportSent (name c)) ''success''
                  (send_email cfg smtp (form req ''sender'') (message_from_usr req c) s)))
      else (Inr (render_template ''report.html'' (ReportForms (DeletCafeForm req) (ReportClosed req))), s))"
  using assms by (simp add: delete_cafe_def Let_def split: sum.splits)

lemma send_email_state:
  "table (send_email cfg smtp sender m s) = table s"
  "mail_log (send_email cfg smtp sender m s) = mail_log s @ [smtp_session cfg (email_message sender m) smtp]"
  "flashed (send_email cfg smtp sender m s) =
     flashed s @ [case smtp of None \<Rightarrow> (EmailSent, ''success'') | Some e \<Rightarrow> (EmailFailed e, ''danger'')]"
  by (simp_all add: send_email_def flash_def Let_def split: option.splits)


lemma report_fields:
  "form report_request ''api_key'' = None"
  "form report_request ''sender'' = Some (ustr ''a@b.c'')"
  "form report_request ''message'' = Some (ustr ''closed'')"
  "form keyed_report_request ''api_key'' = Some (ustr ''TopSecretAPIKey'')"
  "form keyed_report_request ''sender'' = Some (ustr ''a@b.c'')"
  "form keyed_report_request ''message'' = Some (ustr ''closed'')"
  by (simp_all add: report_request_def keyed_report_request_def)

lemma report_submitted: "is_submitted report_request" "is_submitted keyed_report_request"
  by (simp_all add: is_submitted_def report_request_def keyed_report_request_def)

lemma report_valid:
  "ReportClosed_validate report_request (ReportClosed report_request)"
  "ReportClosed_validate keyed_report_request (ReportClosed keyed_report_request)"
proof -
  have "DataRequired (Some (ustr ''a@b.c''))" "DataRequired (Some (ustr ''closed''))"
    by (simp_all add: DataRequired_iff ustr_def isspace_def)
  moreover have "csrf_valid report_request" "csrf_valid keyed_report_request"
    by (simp_all add: report_request_def keyed_report_request_def)
  ultimately show
    "ReportClosed_validate report_request (ReportClosed report_request)"
    "ReportClosed_validate keyed_report_request (ReportClosed keyed_report_request)"
    by (simp_all add: ReportClosed_validate_def ReportClosed_def process_field_def
        report_submitted report_fields)
qed

lemma key_facts:
  "form keyed_report_request ''api_key'' = API_KEY admin_config"
  "form report_request ''api_key'' \<noteq> API_KEY admin_config"
  by (simp_all add: report_fields admin_config_def)

lemma brew_state_keys:
  "get_or_404 (table brew_state) 2 = Inr tea_row"
  "distinct (map id_col (table brew_state))"
  "set (table brew_state) - {tea_row} = {brew_row}"
proof -
  have ids: "id_col brew_row = 1" "id_col tea_row = 2"
    by (simp_all add: brew_row_def new_cafe_def tea_row_def)
  then have ne: "brew_row \<noteq> tea_row" by auto
  show "get_or_404 (table brew_state) 2 = Inr tea_row"
    by (simp add: brew_state_def get_tea)
  show "distinct (map id_col (table brew_state))"
    by (simp add: brew_state_def ids)
  show "set (table brew_state) - {tea_row} = {brew_row}"
    using ne by (auto simp: brew_state_def)
qed


lemma endpoint_refused:
  "req_method req \<notin> set methods \<or> csrf_refused req \<Longrightarrow> snd (endpoint methods view req s) = s"
  by (auto simp: endpoint_def)





text \<open>
  Claim C10. The handler compares the key before it looks at the report form. On a
  request whose key equals the configured key no mail session is opened, whatever the
  request carries besides the key and whatever the relay would do: the log of mail
  sessions is as before. Such a request ends at once, with the targeted row deleted and
  the redirect to the listing when the row exists, and with the 404 when it does not.
\<close>

theorem delete_cafe_key_before_report:
  assumes "form req ''api_key'' = API_KEY cfg"
  shows "mail_log (snd (delete_cafe cfg smtp cafe_id req s)) = mail_log s
       \<and> (\<forall>c. get_or_404 (table s) cafe_id = Inr c \<longrightarrow>
             delete_cafe cfg smtp cafe_id req s =
               (Inr (redirect ''get_all_cafes''),
                flash (Deleted (name c)) ''success'' (s\<lparr>table := db_delete (table s) c\<rparr>))
             \<and> c \<notin> set (table (snd (delete_cafe cfg smtp cafe_id req s))))
       \<and> (cafe_id \<notin> set (map id_col (table s)) \<longrightarrow>
             delete_cafe cfg smtp cafe_id req s = (Inl NotFound, s))"
proof (intro conjI allI impI)
  show "mail_log (snd (delete_cafe cfg smtp cafe_id req s)) = mail_log s"
    by (simp add: delete_cafe_key_match [OF assms] flash_def split: sum.splits)
next
  fix c
  assume c: "get_or_404 (table s) cafe_id = Inr c"
  then show run: "delete_cafe cfg smtp cafe_id req s =
               (Inr (redirect ''get_all_cafes''),
                flash (Deleted (name c)) ''success'' (s\<lparr>table := db_delete (table s) c\<rparr>))"
    by (simp add: delete_cafe_key_match [OF assms])
  show "c \<notin> set (table (snd (delete_cafe cfg smtp cafe_id req s)))"
    by (simp add: run flash_def db_delete_def)
next
  assume "cafe_id \<notin> set (map id_col (table s))"
  then show "delete_cafe cfg smtp cafe_id req s = (Inl NotFound, s)"
    by (simp add: delete_cafe_key_match [OF assms] get_or_404_absent)
qed

theorem delete_cafe_key_before_report_witness:
  "form keyed_report_request ''api_key'' = API_KEY admin_config
   \<and> is_submitted keyed_report_request
   \<and> ReportClosed_validate keyed_report_request (ReportClosed keyed_report_request)
   \<and> get_or_404 (table brew_state) 2 = Inr tea_row
   \<and> mail_log (snd (delete_cafe admin_config None 2 keyed_report_request brew_state))
       = mail_log brew_state
   \<and> fst (delete_cafe admin_config None 2 keyed_report_request brew_state)
       = Inr (redirect ''get_all_cafes'')
   \<and> tea_row \<notin> set (table (snd (delete_cafe admin_config None 2 keyed_report_request brew_state)))"
proof -
  note run = delete_cafe_key_before_report
    [OF key_facts(1), of None 2 brew_state]
  from run have
    "mail_log (snd (delete_cafe admin_config None 2 keyed_report_request brew_state))
       = mail_log brew_state"
    by blast
  moreover from run brew_state_keys(1) have
    "delete_cafe admin_config None 2 keyed_report_request brew_state =
       (Inr (redirect ''get_all_cafes''),
        flash (Deleted (name tea_row)) ''success''
          (brew_state\<lparr>table := db_delete (table brew_state) tea_row\<rparr>))"
    "tea_row \<notin> set (table (snd (delete_cafe admin_config None 2 keyed_report_request brew_state)))"
    by blast+
  ultimately show ?thesis
    using key_facts(1) report_submitted(2) report_valid(2) brew_state_keys(1) by simp
qed

text \<open>
  Claim C9, as amended. A submission that validates as a closure report and whose key
  differs from the configured key is handled as a report. If the targeted row is absent
  the request ends with the 404 of \<open>get_or_404\<close> and nothing else happens. If it exists,
  one mail session is opened with the composed message, and the handler redirects to the
  listing whatever the session's outcome \<open>smtp\<close>: a failure at any step is flashed as a
  notice of category \<open>danger\<close> and nothing is raised. The table is left as it was.
\<close>

theorem delete_cafe_report_dispatch:
  assumes "form req ''api_key'' \<noteq> API_KEY cfg"
    and "is_submitted req"
    and "ReportClosed_validate req (ReportClosed req)"
  shows "(cafe_id \<notin> set (map id_col (table s)) \<longrightarrow>
            delete_cafe cfg smtp cafe_id req s = (Inl NotFound, s))
       \<and> (\<forall>c. get_or_404 (table s) cafe_id = Inr c \<longrightarrow>
            fst (delete_cafe cfg smtp cafe_id req s) = Inr (redirect ''get_all_cafes'')
            \<and> table (snd (delete_cafe cfg smtp cafe_id req s)) = table s
            \<and> mail_log (snd (delete_cafe cfg smtp cafe_id req s)) =
                mail_log s
                  @ [smtp_session cfg
                       (email_message (form req ''sender'') (message_from_usr req c)) smtp]
            \<and> flashed (snd (delete_cafe cfg smtp cafe_id req s)) =
                flashed s
                  @ [case smtp of
                       None \<Rightarrow> (EmailSent, ''success'')
                     | Some e \<Rightarrow> (EmailFailed e, ''danger''),
                     (ReportSent (name c), ''success'')])"
proof (intro conjI allI impI)
  assume "cafe_id \<notin> set (map id_col (table s))"
  then show "delete_cafe cfg smtp cafe_id req s = (Inl NotFound, s)"
    using assms(2,3) by (simp add: delete_cafe_key_mismatch [OF assms(1)] get_or_404_absent)
next
  fix c
  assume c: "get_or_404 (table s) cafe_id = Inr c"
  have run: "delete_cafe cfg smtp cafe_id req s =
      (Inr (redirect ''get_all_cafes''),
       flash (ReportSent (name c)) ''success''
         (send_email cfg smtp (form req ''sender'') (message_from_usr req c) s))"
    using assms(2,3) c by (simp add: delete_cafe_key_mismatch [OF assms(1)])
  show "fst (delete_cafe cfg smtp cafe_id req s) = Inr (redirect ''get_all_cafes'')"
    by (simp add: run)
  show "table (snd (delete_cafe cfg smtp cafe_id req s)) = table s"
    by (simp add: run flash_def send_email_state)
  show "mail_log (snd (delete_cafe cfg smtp cafe_id req s)) =
      mail_log s
        @ [smtp_session cfg (email_message (form req ''sender'') (message_from_usr req c)) smtp]"
    by (simp add: run flash_def send_email_state)
  show "flashed (snd (delete_cafe cfg smtp cafe_id req s)) =
      flashed s
        @ [case smtp of
             None \<Rightarrow> (EmailSent, ''success'')
           | Some e \<Rightarrow> (EmailFailed e, ''danger''),
           (ReportSent (name c), ''success'')]"
    by (simp add: run flash_def send_email_state)
qed

theorem delete_cafe_report_dispatch_witness:
  "form report_request ''api_key'' \<noteq> API_KEY admin_config
   \<and> is_submitted report_request
   \<and> ReportClosed_validate report_request (ReportClosed report_request)
   \<and> get_or_404 (table brew_state) 2 = Inr tea_row
   \<and> fst (delete_cafe admin_config (Some LoginFailed) 2 report_request brew_state)
       = Inr (redirect ''get_all_cafes'')
   \<and> flashed (snd (delete_cafe admin_config (Some LoginFailed) 2 report_request brew_state))
       = [(EmailFailed LoginFailed, ''danger''), (ReportSent (name tea_row), ''success'')]
   \<and> length (mail_log (snd (delete_cafe admin_config (Some LoginFailed) 2 report_request
        brew_state))) = 1"
proof -
  note run = delete_cafe_report_dispatch
    [OF key_facts(2) report_submitted(1) report_valid(1), of 2 brew_state "Some LoginFailed"]
  from run brew_state_keys(1) have
    "fst (delete_cafe admin_config (Some LoginFailed) 2 report_request brew_state)
       = Inr (redirect ''get_all_cafes'')"
    "mail_log (snd (delete_cafe admin_config (Some LoginFailed) 2 report_request brew_state)) =
       mail_log brew_state
         @ [smtp_session admin_config
              (email_message (form report_request ''sender'')
                 (message_from_usr report_request tea_row))
              (Some LoginFailed)]"
    "flashed (snd (delete_cafe admin_config (Some LoginFailed) 2 report_request brew_state)) =
       flashed brew_state
         @ [case Some LoginFailed of
              None \<Rightarrow> (EmailSent, ''success'')
            | Some e \<Rightarrow> (EmailFailed e, ''danger''),
            (ReportSent (name tea_row), ''success'')]"
    by blast+
  moreover have "mail_log brew_state = []" "flashed brew_state = []"
    by (simp_all add: brew_state_def)
  ultimately show ?thesis
    using key_facts(2) report_submitted(1) report_valid(1) brew_state_keys(1) by simp
qed

text \<open>
  Claim C9 as stated does not hold for every validating closure report: a request that
  validates as a report and also carries the configured key is taken by the key branch,
  which deletes the row and sends nothing.
\<close>

theorem delete_cafe_keyed_report_counterexample:
  "is_submitted keyed_report_request
   \<and> ReportClosed_validate keyed_report_request (ReportClosed keyed_report_request)
   \<and> get_or_404 (table brew_state) 2 = Inr tea_row
   \<and> mail_log (snd (delete_cafe admin_config None 2 keyed_report_request brew_state)) = []
   \<and> table (snd (delete_cafe admin_config None 2 keyed_report_request brew_state)) = [brew_row]"
proof -
  have "delete_cafe admin_config None 2 keyed_report_request brew_state =
      (Inr (redirect ''get_all_cafes''),
       flash (Deleted (name tea_row)) ''success''
         (brew_state\<lparr>table := db_delete (table brew_state) tea_row\<rparr>))"
    using key_facts(1) brew_state_keys(1) by (simp add: delete_cafe_def Let_def)
  moreover have "db_delete (table brew_state) tea_row = [brew_row]"
  proof -
    have "id_col brew_row = 1" "id_col tea_row = 2"
      by (simp_all add: brew_row_def new_cafe_def tea_row_def)
    then show ?thesis by (simp add: db_delete_def brew_state_def)
  qed
  moreover have "mail_log brew_state = []"
    by (simp add: brew_state_def)
  ultimately show ?thesis
    using report_submitted(2) report_valid(2) brew_state_keys(1) by (simp add: flash_def)
qed

end
